theory Spec2Isabelle
  imports Main "HOL-Library.Sublist"
begin

section \<open>Values, tokens and thrown errors\<close>

text \<open>
  An optional JavaScript value: \<open>undefined\<close>, \<open>null\<close>, or a value. Optional parameters
  (\<open>options?: JwtOptions\<close>, \<open>token: string = undefined\<close>) have this type.
\<close>

datatype 'a js = Undefined | Null | Val 'a

text \<open>\<open>!token\<close> on an optional string: \<open>undefined\<close>, \<open>null\<close> and the empty string are falsy.\<close>

fun falsy :: "string js \<Rightarrow> bool" where
  "falsy Undefined = True"
| "falsy Null = True"
| "falsy (Val s) = (s = [])"

text \<open>The string behind an optional string that is not falsy.\<close>

fun js_string :: "string js \<Rightarrow> string" where
  "js_string (Val s) = s"
| "js_string _ = []"


text \<open>\<open>xs[i]\<close>: reading past the end of a JavaScript array gives \<open>undefined\<close>.\<close>

definition at_index :: "'a list \<Rightarrow> nat \<Rightarrow> 'a option" where
  "at_index xs i = (if i < length xs then Some (xs ! i) else None)"

text \<open>
  \<open>SignedCredential\<close> / \<open>VCV1\<close>. A field that may be \<open>undefined\<close> is an option; the
  contents of claim, subject and dates play no role in the code modelled here and are
  kept as strings.
\<close>

record signed_credential =
  vc_id :: string
  vc_type :: "string list"
  issued :: "string option"
  issuanceDate :: "string option"
  claim :: "string option"
  credentialSubject :: "string option"

record credential_requirement =
  req_type :: "string list"

record interaction_token =
  it_credentialRequirements :: "credential_requirement list"
  it_suppliedCredentials :: "signed_credential list"
  it_callbackURL :: "string option"

record jwt_payload =
  jti :: string
  iss :: string
  interactionToken :: interaction_token

record jwt_object =
  payload :: jwt_payload
  signature :: "string option"

record jwt_options =
  o_audienceDid :: "string option"
  o_expiresAt :: "string option"
  o_nonce :: "string option"
  o_callbackUrl :: "string option"

text \<open>
  The second argument of \<open>new SdkError(code, context, originalError)\<close>, one constructor
  for each context object built in the code modelled here.
\<close>

datatype error_context =
    Ctx_errors_credentials "string list" "signed_credential list"
  | Ctx_credentialShareRequestToken "string js"
  | Ctx_accessToken string

text \<open>
  What a call can throw: an \<open>SdkError\<close> (code, context, original error), or any other
  value thrown by a collaborator or by the runtime, with its \<open>code\<close> property when it
  has one.
\<close>

datatype error =
    SdkError string error_context "error option"
  | Thrown "string option" string

fun error_code :: "error \<Rightarrow> string option" where
  "error_code (SdkError c _ _) = Some c"
| "error_code (Thrown c _) = c"

section \<open>Collaborators\<close>

text \<open>
  One entry of the array handed to \<open>ParametersValidator.validate\<close>:
  \<open>{ isArray, type, isRequired, value }\<close>.
\<close>

datatype param_type =
    T_jwt | T_did | T_string | T_boolean | T_JwtOptions | T_CredentialRequirement
  | T_SignedCredential | T_VCV1

datatype param_value =
    V_string "string js"
  | V_boolean bool
  | V_options "jwt_options js"
  | V_requirements "credential_requirement list"
  | V_credentials "signed_credential list"

datatype param_schema = Param bool param_type bool param_value

text \<open>\<open>params\<close> of the verifier API's \<open>BuildCredentialRequest\<close> operation.\<close>

record request_params =
  p_credentialRequirements :: "credential_requirement list"
  p_issuerDid :: "string js"
  p_audienceDid :: "string option"
  p_expiresAt :: "string option"
  p_nonce :: "string option"
  p_callbackUrl :: "string option"

text \<open>What \<open>HolderService.verifyCredentialShareResponse\<close> resolves to.\<close>

record share_verification =
  sv_isValid :: bool
  sv_did :: string
  sv_jti :: string
  sv_suppliedCredentials :: "signed_credential list"
  sv_errors :: "string list"

text \<open>A presentation (\<open>VPV1\<close>) and the argument of \<open>buildVPV1Unsigned\<close>.\<close>

record presentation =
  vp_id :: string
  vp_holder_id :: string
  verifiableCredential :: "signed_credential list"
  proof_challenge :: string
  proof_domain :: string

record unsigned_presentation =
  uvp_id :: string
  uvp_vcs :: "signed_credential list"
  uvp_holder_id :: string

text \<open>
  The argument of \<open>verifyPresentation\<close> has type \<open>unknown\<close>: a presentation or anything
  else. \<open>validatePresentation\<close> resolves to \<open>{ result: true, data }\<close> or to
  \<open>{ result: false, error }\<close>.
\<close>

datatype unknown_value = A_presentation presentation | Not_a_presentation string

datatype validation_response = Validation_ok presentation | Validation_failed error

text \<open>
  The revocation-list credential returned by the revocation service, and the service's
  answer to \<open>buildRevocationListStatus\<close> (the field is spelled \<open>isPublisRequired\<close> in the
  code).
\<close>

record list_credential =
  rlc_id :: string
  rlc_encodedList :: string
  rlc_issuanceDate :: "string option"
  rlc_proof :: "string option"

record revocation_status_response =
  r_credentialStatus :: string
  r_isPublisRequired :: bool
  r_revocationListCredential :: list_credential

record cognito_user_tokens =
  t_accessToken :: string
  t_idToken :: string
  t_refreshToken :: string

datatype event_name = VC_VERIFIED_PER_PARTY | VC_SAVED

record metric_event =
  ev_link :: string
  ev_secondaryLink :: string
  ev_name :: event_name
  ev_category :: string
  ev_subCategory :: string
  ev_metadata :: string

text \<open>
  The services a \<open>CommonNetworkMember\<close> holds and the static helpers it calls. Their
  code is outside the modelled file, so each is a function of its arguments that either
  throws (\<open>Inl\<close>) or returns (\<open>Inr\<close>); a call that returns nothing gives the error it
  throws, if any. \<open>wss_storeEncryptedSeed\<close> takes the number of earlier calls first, since
  the storage service may answer a repeated call differently. \<open>randomHex\<close> stands for
  \<open>randomBytes(8).toString('hex')\<close> and \<open>now\<close> for \<open>new Date().toISOString()\<close>.
\<close>

record member =
  validate :: "param_schema list \<Rightarrow> error option"
  fromJWT :: "string \<Rightarrow> error + jwt_object"
  isW3cCredential :: "credential_requirement \<Rightarrow> bool"
  hs_buildCredentialResponse :: "string \<Rightarrow> signed_credential list \<Rightarrow> error + jwt_object"
  hs_verifyCredentialShareResponse :: "string \<Rightarrow> string js \<Rightarrow> bool \<Rightarrow> error + share_verification"
  hs_verifyPresentationChallenge :: "string \<Rightarrow> string \<Rightarrow> error option"
  va_BuildCredentialRequest :: "request_params \<Rightarrow> error + jwt_object"
  ks_signJWT :: "jwt_object \<Rightarrow> string option \<Rightarrow> error + jwt_object"
  ks_decryptSeed :: "error + string"
  js_encodeObjectToJWT :: "jwt_object \<Rightarrow> error + string"
  ms_parseVcMetadata :: "signed_credential \<Rightarrow> event_name \<Rightarrow> string"
  af_signPresentation ::
    "unsigned_presentation \<Rightarrow> string \<Rightarrow> string \<Rightarrow> string \<Rightarrow> string \<Rightarrow> error + presentation"
  af_validatePresentation :: "unknown_value \<Rightarrow> error + validation_response"
  af_signCredential :: "list_credential \<Rightarrow> string \<Rightarrow> string \<Rightarrow> error + list_credential"
  rs_buildRevocationListStatus ::
    "string \<Rightarrow> string option \<Rightarrow> string \<Rightarrow> error + revocation_status_response"
  rs_revokeCredential :: "string \<Rightarrow> string \<Rightarrow> string \<Rightarrow> error + list_credential"
  rs_publishRevocationListCredential :: "list_credential \<Rightarrow> string \<Rightarrow> error option"
  cs_signIn :: "string \<Rightarrow> string \<Rightarrow> error + cognito_user_tokens"
  normalizeShortPassword :: "string \<Rightarrow> string \<Rightarrow> string"
  wss_pullEncryptionKey :: "string \<Rightarrow> error + string"
  wss_storeEncryptedSeed :: "nat \<Rightarrow> string \<Rightarrow> string \<Rightarrow> string \<Rightarrow> error option"
  did :: string
  didDocumentKeyId :: string
  m_encryptedSeed :: string
  m_password :: string
  isTestEnvironment :: bool
  randomHex :: string
  now :: string

section \<open>Building a share response\<close>

definition msg_issued :: string where
  \<open>msg_issued = ''Parameter "issued" is missing for SignedCredential''\<close>

definition msg_issuanceDate :: string where
  \<open>msg_issuanceDate = ''Parameter "issuanceDate" is missing for SignedCredential''\<close>

definition msg_credentialSubject :: string where
  \<open>msg_credentialSubject = ''Parameter "credentialSubject" is missing for SignedCredential''\<close>

text \<open>
  The loop of \<open>_validateSignedCredentialsSupportedStructures\<close>, with the \<open>errors\<close> array
  as accumulator. A legacy credential (one with a \<open>claim\<close>) is only checked for
  \<open>issued\<close> (\<open>continue\<close>).
\<close>

fun structure_errors_loop :: "signed_credential list \<Rightarrow> string list \<Rightarrow> string list" where
  "structure_errors_loop [] errors = errors"
| "structure_errors_loop (credential # rest) errors =
     (let hasIssuedDate = (issued credential \<noteq> None);
          hasIssuanceDate = (issuanceDate credential \<noteq> None);
          isLegacyCredential = (claim credential \<noteq> None);
          hasCredentialSubject = (credentialSubject credential \<noteq> None)
      in if isLegacyCredential
         then structure_errors_loop rest
                (if \<not> hasIssuedDate then errors @ [msg_issued] else errors)
         else
           (let errors1 = (if \<not> hasIssuanceDate then errors @ [msg_issuanceDate] else errors);
                errors2 = (if \<not> hasCredentialSubject
                           then errors1 @ [msg_credentialSubject] else errors1)
            in structure_errors_loop rest errors2))"

definition validateSignedCredentialsSupportedStructures ::
    "signed_credential list \<Rightarrow> error + unit" where
  "validateSignedCredentialsSupportedStructures credentials =
     (let errors = structure_errors_loop credentials [];
          areCredentialsValid = (length errors = 0)
      in if \<not> areCredentialsValid
         then Inl (SdkError ''COR-1'' (Ctx_errors_credentials errors credentials) None)
         else Inr ())"

text \<open>
  The structural check in the words of the specification: a legacy credential (one with a
  \<open>claim\<close>) has \<open>issued\<close>; any other credential has \<open>issuanceDate\<close> and
  \<open>credentialSubject\<close>. \<open>credential_errors\<close> is what one pass of the loop adds for
  one credential.
\<close>

definition structure_ok :: "signed_credential \<Rightarrow> bool" where
  "structure_ok c =
     (if claim c \<noteq> None then issued c \<noteq> None
      else issuanceDate c \<noteq> None \<and> credentialSubject c \<noteq> None)"

definition credential_errors :: "signed_credential \<Rightarrow> string list" where
  "credential_errors c =
     (if claim c \<noteq> None then (if issued c = None then [msg_issued] else [])
      else (if issuanceDate c = None then [msg_issuanceDate] else []) @
           (if credentialSubject c = None then [msg_credentialSubject] else []))"

definition createCredentialShareResponseToken ::
    "member \<Rightarrow> string \<Rightarrow> signed_credential list \<Rightarrow> error + string" where
  "createCredentialShareResponseToken this credentialShareRequestToken suppliedCredentials =
     (case validate this
             [Param False T_jwt True (V_string (Val credentialShareRequestToken)),
              Param True T_SignedCredential True (V_credentials suppliedCredentials)] of
        Some e \<Rightarrow> Inl e
      | None \<Rightarrow>
     (case validateSignedCredentialsSupportedStructures suppliedCredentials of
        Inl e \<Rightarrow> Inl e
      | Inr _ \<Rightarrow>
     (case hs_buildCredentialResponse this credentialShareRequestToken suppliedCredentials of
        Inl e \<Rightarrow> Inl e
      | Inr credentialResponse \<Rightarrow>
     (case ks_signJWT this credentialResponse (Some (didDocumentKeyId this)) of
        Inl e \<Rightarrow> Inl e
      | Inr signedObject \<Rightarrow> js_encodeObjectToJWT this signedObject))))"

text \<open>\<open>getCredentialTypes\<close>: the second type tag of every W3C requirement of a request.\<close>

fun credential_types_loop ::
    "member \<Rightarrow> credential_requirement list \<Rightarrow> string option list \<Rightarrow> string option list" where
  "credential_types_loop this [] credentialTypes = credentialTypes"
| "credential_types_loop this (credential # rest) credentialTypes =
     (if isW3cCredential this credential
      then credential_types_loop this rest (credentialTypes @ [at_index (req_type credential) 1])
      else credential_types_loop this rest credentialTypes)"

definition getCredentialTypes :: "member \<Rightarrow> jwt_object \<Rightarrow> string option list" where
  "getCredentialTypes this credentialRequest =
     credential_types_loop this
       (it_credentialRequirements (interactionToken (payload credentialRequest))) []"

text \<open>
  \<open>getShareCredential\<close>: the credentials of \<open>options.credentials\<close> whose second type tag
  is one of the requested types (\<open>types.includes(cred.type[1])\<close>).
\<close>

definition getShareCredential ::
    "member \<Rightarrow> string \<Rightarrow> signed_credential list \<Rightarrow> error + signed_credential list" where
  "getShareCredential this credentialShareRequestToken credentials =
     (case fromJWT this credentialShareRequestToken of
        Inl e \<Rightarrow> Inl e
      | Inr credentialShareRequest \<Rightarrow>
          (let types = getCredentialTypes this credentialShareRequest
           in Inr (filter (\<lambda>cred. at_index (vc_type cred) 1 \<in> set types) credentials)))"

section \<open>Share requests and DID authentication\<close>




section \<open>Verifying a share response\<close>

text \<open>
  The second argument of \<open>verifyCredentialShareResponseToken\<close>: a token (or nothing), or
  an asynchronous function from the response's nonce to a token, which may also reject.
\<close>

datatype request_argument =
    Token "string js"
  | Resolver "string \<Rightarrow> error + string js"

record credential_share_response_output =
  out_isValid :: bool
  out_did :: string
  out_nonce :: string
  out_suppliedCredentials :: "signed_credential list"
  out_errors :: "string list"

definition sendVCVerifiedPerPartyMetrics ::
    "member \<Rightarrow> signed_credential list \<Rightarrow> metric_event list" where
  "sendVCVerifiedPerPartyMetrics this credentials =
     (let verifierDid = did this
      in map (\<lambda>credential.
                \<lparr>ev_link = vc_id credential, ev_secondaryLink = verifierDid,
                 ev_name = VC_VERIFIED_PER_PARTY, ev_category = ''VC'',
                 ev_subCategory = ''verify per party'',
                 ev_metadata = ms_parseVcMetadata this credential VC_VERIFIED_PER_PARTY\<rparr>)
             credentials)"

text \<open>
  The \<open>if (isFunction)\<close> block: the request token the resolver gives for the response's
  \<open>jti\<close>, or \<open>COR-15\<close> when it gives nothing or a token that \<open>fromJWT\<close> rejects.
\<close>

definition resolveRequestToken ::
    "member \<Rightarrow> string \<Rightarrow> (string \<Rightarrow> error + string js) \<Rightarrow> error + string js" where
  "resolveRequestToken this credentialShareResponseToken credentialShareRequest =
     (case fromJWT this credentialShareResponseToken of
        Inl e \<Rightarrow> Inl e
      | Inr credentialShareResponse \<Rightarrow>
     (let requestNonce = jti (payload credentialShareResponse)
      in case credentialShareRequest requestNonce of
           Inl e \<Rightarrow> Inl e
         | Inr credentialShareRequestToken \<Rightarrow>
             (if falsy credentialShareRequestToken
              then Inl (SdkError ''COR-15''
                     (Ctx_credentialShareRequestToken credentialShareRequestToken) None)
              else (case fromJWT this (js_string credentialShareRequestToken) of
                      Inl error \<Rightarrow>
                        Inl (SdkError ''COR-15''
                          (Ctx_credentialShareRequestToken credentialShareRequestToken) None)
                    | Inr _ \<Rightarrow> Inr credentialShareRequestToken))))"

text \<open>
  The end of \<open>verifyCredentialShareResponseToken\<close>, once the holder service has answered:
  the output, together with the metric events sent on the way.
\<close>

definition share_response_output ::
    "member \<Rightarrow> share_verification \<Rightarrow> credential_share_response_output \<times> metric_event list" where
  "share_response_output this response =
     (\<lparr>out_isValid = sv_isValid response, out_did = sv_did response,
       out_nonce = sv_jti response,
       out_suppliedCredentials = sv_suppliedCredentials response,
       out_errors = sv_errors response\<rparr>,
      if sv_isValid response \<and> \<not> isTestEnvironment this
      then sendVCVerifiedPerPartyMetrics this (sv_suppliedCredentials response)
      else [])"

definition verifyCredentialShareResponseToken ::
    "member \<Rightarrow> string \<Rightarrow> request_argument \<Rightarrow> bool
      \<Rightarrow> error + credential_share_response_output \<times> metric_event list" where
  "verifyCredentialShareResponseToken this credentialShareResponseToken credentialShareRequest
       shouldOwn =
     (let token0 = (case credentialShareRequest of Token t \<Rightarrow> t | Resolver _ \<Rightarrow> Undefined)
      in case validate this
                [Param False T_jwt True (V_string (Val credentialShareResponseToken)),
                 Param False T_jwt False (V_string token0),
                 Param False T_boolean False (V_boolean shouldOwn)] of
           Some e \<Rightarrow> Inl e
         | None \<Rightarrow>
        (case (case credentialShareRequest of
                 Token t \<Rightarrow> Inr t
               | Resolver f \<Rightarrow> resolveRequestToken this credentialShareResponseToken f) of
           Inl e \<Rightarrow> Inl e
         | Inr credentialShareRequestToken \<Rightarrow>
        (case hs_verifyCredentialShareResponse this credentialShareResponseToken
                credentialShareRequestToken shouldOwn of
           Inl e \<Rightarrow> Inl e
         | Inr response \<Rightarrow> Inr (share_response_output this response))))"


section \<open>The holder service's verification of a share response\<close>




section \<open>Presentations\<close>

definition createPresentationFromChallenge ::
    "member \<Rightarrow> string \<Rightarrow> signed_credential list \<Rightarrow> string \<Rightarrow> error + presentation" where
  "createPresentationFromChallenge this challenge vcs domain =
     (case validate this
             [Param False T_jwt True (V_string (Val challenge)),
              Param True T_VCV1 True (V_credentials vcs)] of
        Some e \<Rightarrow> Inl e
      | None \<Rightarrow>
     (case fromJWT this challenge of
        Inl e \<Rightarrow> Inl e
      | Inr credentialRequest \<Rightarrow>
          (let requestedTypes = getCredentialTypes this credentialRequest
           in af_signPresentation this
                \<lparr>uvp_id = ''presentationId:'' @ randomHex this,
                 uvp_vcs = filter (\<lambda>vc. at_index (vc_type vc) 1 \<in> set requestedTypes) vcs,
                 uvp_holder_id = did this\<rparr>
                (m_encryptedSeed this) (m_password this) challenge domain)))"

record presentation_validation_output =
  pv_isValid :: bool
  pv_did :: "string option"
  pv_challenge :: "string option"
  pv_suppliedPresentation :: unknown_value
  pv_errors :: "error list option"

definition verifyPresentation ::
    "member \<Rightarrow> unknown_value \<Rightarrow> error + presentation_validation_output" where
  "verifyPresentation this vp =
     (case af_validatePresentation this vp of
        Inl e \<Rightarrow> Inl e
      | Inr response \<Rightarrow>
          (case response of
             Validation_ok data \<Rightarrow>
               (case hs_verifyPresentationChallenge this (proof_challenge data) (did this) of
                  Some error \<Rightarrow>
                    Inr \<lparr>pv_isValid = False, pv_did = None, pv_challenge = None,
                         pv_suppliedPresentation = A_presentation data,
                         pv_errors = Some [error]\<rparr>
                | None \<Rightarrow>
                    Inr \<lparr>pv_isValid = True, pv_did = Some (vp_holder_id data),
                         pv_challenge = Some (proof_challenge data),
                         pv_suppliedPresentation = A_presentation data,
                         pv_errors = None\<rparr>)
           | Validation_failed error \<Rightarrow>
               Inr \<lparr>pv_isValid = False, pv_did = None, pv_challenge = None,
                    pv_suppliedPresentation = vp, pv_errors = Some [error]\<rparr>))"

section \<open>Revocation\<close>

text \<open>
  \<open>buildRevocationListStatus\<close> receives its credential by reference, copies it with
  \<open>Object.assign\<close> and pushes onto the copy's \<open>@context\<close> array, so objects and arrays
  live in a store: a credential object holds the address of its \<open>@context\<close> array, when
  it has one. \<open>calls\<close> records the requests made to the revocation service and to the
  signer, in order.
\<close>

record unsigned_credential =
  uc_id :: string
  uc_holder_id :: "string option"
  uc_type :: "string list"
  uc_context :: "nat option"
  uc_credentialSubject :: string
  uc_issuanceDate :: "string option"
  uc_credentialStatus :: "string option"

datatype service_call =
    Call_buildRevocationListStatus string "string option" string
  | Call_revokeCredential string string string
  | Call_signCredential list_credential
  | Call_publishRevocationListCredential list_credential string

record world =
  objects :: "nat \<Rightarrow> unsigned_credential option"
  next_object :: nat
  arrays :: "nat \<Rightarrow> string list"
  calls :: "service_call list"

definition revocation_context_uri :: string where
  "revocation_context_uri = ''https://w3id.org/vc-revocation-list-2020/v1''"

text \<open>
  The result is the address of the new object \<open>revokableUnsignedCredential\<close>, or what was
  thrown, with the store as the call leaves it. Reading a property of a missing object
  or calling \<open>push\<close> on a missing \<open>@context\<close> throws a \<open>TypeError\<close>.
\<close>

definition buildRevocationListStatus ::
    "member \<Rightarrow> world \<Rightarrow> nat \<Rightarrow> string \<Rightarrow> (error + nat) \<times> world" where
  "buildRevocationListStatus this w unsignedCredential revocationServiceAccessToken =
     (case objects w unsignedCredential of
        None \<Rightarrow> (Inl (Thrown None ''TypeError''), w)
      | Some obj \<Rightarrow>
     (let credentialId = uc_id obj;
          subjectDid = uc_holder_id obj;
          w1 = w\<lparr>calls := calls w @
                 [Call_buildRevocationListStatus credentialId subjectDid
                    revocationServiceAccessToken]\<rparr>
      in case rs_buildRevocationListStatus this credentialId subjectDid
                revocationServiceAccessToken of
           Inl e \<Rightarrow> (Inl e, w1)
         | Inr response \<Rightarrow>
        (let credentialStatus = r_credentialStatus response;
             isPublisRequired = r_isPublisRequired response;
             revocationListCredential = r_revocationListCredential response;
             revokableUnsignedCredential = next_object w1;
             w2 = w1\<lparr>objects := (objects w1)
                        (revokableUnsignedCredential \<mapsto>
                           obj\<lparr>uc_credentialStatus := Some credentialStatus\<rparr>),
                     next_object := Suc revokableUnsignedCredential\<rparr>
         in case uc_context obj of
              None \<Rightarrow> (Inl (Thrown None ''TypeError''), w2)
            | Some context_array \<Rightarrow>
           (let w3 = w2\<lparr>arrays := (arrays w2)
                           (context_array := arrays w2 context_array @ [revocation_context_uri])\<rparr>
            in if isPublisRequired
               then
                 (let w4 = w3\<lparr>calls := calls w3 @ [Call_signCredential revocationListCredential]\<rparr>
                  in case af_signCredential this revocationListCredential
                            (m_encryptedSeed this) (m_password this) of
                       Inl e \<Rightarrow> (Inl e, w4)
                     | Inr signed \<Rightarrow>
                    (let signedListCredential = signed\<lparr>rlc_issuanceDate := Some (now this)\<rparr>;
                         w5 = w4\<lparr>calls := calls w4 @
                                [Call_publishRevocationListCredential signedListCredential
                                   revocationServiceAccessToken]\<rparr>
                     in case rs_publishRevocationListCredential this signedListCredential
                               revocationServiceAccessToken of
                          Some e \<Rightarrow> (Inl e, w5)
                        | None \<Rightarrow> (Inr revokableUnsignedCredential, w5)))
               else (Inr revokableUnsignedCredential, w3)))))"


section \<open>Storing the encrypted seed\<close>

text \<open>
  Modelled from the spec: the \<open>retry\<close> operator (package \<open>async-retry\<close>) is not part of
  the sources. It is a bounded retry: it runs the attempt; an attempt that returns ends
  it with that value; an attempt that bails out ends it at once with the error given to
  \<open>bail\<close>; an attempt that throws is run again while retries are left, and once the
  \<open>retries\<close> count is met (the option counts the retries after the first attempt) the
  error of the last attempt is thrown. The attempts made are counted, and each attempt
  gets its number, counted from 0. Waiting between attempts is left out.
\<close>

datatype 'a attempt = Returned 'a | Bailed error | Threw error

fun retry :: "(nat \<Rightarrow> 'a attempt) \<Rightarrow> nat \<Rightarrow> nat \<Rightarrow> (error + 'a) \<times> nat" where
  "retry fn 0 n =
     (case fn n of
        Returned v \<Rightarrow> (Inr v, Suc n)
      | Bailed e \<Rightarrow> (Inl e, Suc n)
      | Threw e \<Rightarrow> (Inl e, Suc n))"
| "retry fn (Suc retries) n =
     (case fn n of
        Returned v \<Rightarrow> (Inr v, Suc n)
      | Bailed e \<Rightarrow> (Inl e, Suc n)
      | Threw e \<Rightarrow> retry fn retries (Suc n))"

text \<open>The callback handed to \<open>retry\<close>: one call of the storage service.\<close>

definition store_attempt :: "member \<Rightarrow> string \<Rightarrow> string \<Rightarrow> string \<Rightarrow> nat \<Rightarrow> unit attempt" where
  "store_attempt this accessToken seedHexWithMethod encryptionKey n =
     (let errorCodes = [''COR-1'', ''WAL-2'']
      in case wss_storeEncryptedSeed this n accessToken seedHexWithMethod encryptionKey of
           None \<Rightarrow> Returned ()
         | Some error \<Rightarrow>
             (if (case error_code error of None \<Rightarrow> False | Some c \<Rightarrow> c \<in> set errorCodes)
              then Bailed error
              else Threw (SdkError ''COR-18'' (Ctx_accessToken accessToken) (Some error))))"

text \<open>
  The \<open>if (!token)\<close> block: the access token to use, and the Cognito tokens stored in
  \<open>this.cognitoUserTokens\<close> when the call had to sign in.
\<close>

definition access_token_for ::
    "member \<Rightarrow> string \<Rightarrow> string \<Rightarrow> string js
      \<Rightarrow> error + string \<times> cognito_user_tokens option" where
  "access_token_for this username password token =
     (if falsy token
      then (case cs_signIn this username (normalizeShortPassword this password username) of
              Inl e \<Rightarrow> Inl e
            | Inr tokens \<Rightarrow> Inr (t_accessToken tokens, Some tokens))
      else Inr (js_string token, None))"

text \<open>
  The result is what the call throws, if anything, the Cognito tokens it stored, if it
  signed in, and the number of calls made to the storage service.
\<close>

definition storeEncryptedSeed ::
    "member \<Rightarrow> string \<Rightarrow> string \<Rightarrow> string js
      \<Rightarrow> error option \<times> cognito_user_tokens option \<times> nat" where
  "storeEncryptedSeed this username password token =
     (case validate this
             [Param False T_string True (V_string (Val username)),
              Param False T_string True (V_string (Val password)),
              Param False T_jwt False (V_string token)] of
        Some e \<Rightarrow> (Some e, None, 0)
      | None \<Rightarrow>
     (case access_token_for this username password token of
        Inl e \<Rightarrow> (Some e, None, 0)
      | Inr (accessToken, cognitoUserTokens) \<Rightarrow>
     (case ks_decryptSeed this of
        Inl e \<Rightarrow> (Some e, cognitoUserTokens, 0)
      | Inr seedHexWithMethod \<Rightarrow>
     (case wss_pullEncryptionKey this accessToken of
        Inl e \<Rightarrow> (Some e, cognitoUserTokens, 0)
      | Inr encryptionKey \<Rightarrow>
     (case retry (store_attempt this accessToken seedHexWithMethod encryptionKey) 3 0 of
        (Inl e, attempts) \<Rightarrow> (Some e, cognitoUserTokens, attempts)
      | (Inr _, attempts) \<Rightarrow> (None, cognitoUserTokens, attempts))))))"

section \<open>A member with simple collaborators\<close>

text \<open>
  Concrete collaborators, used to run the definitions on examples: a validator that
  accepts everything, a decoder that knows three tokens, a holder service that puts the
  supplied credentials into the response as they are, a signer that adds a signature and
  an encoder that spells out the nonce and the identifiers of the credentials carried.
\<close>

definition email_requirement :: credential_requirement where
  "email_requirement = \<lparr>req_type = [''Credential'', ''EmailCredentialPersonV1'']\<rparr>"

definition share_request_object :: jwt_object where
  "share_request_object =
     \<lparr>payload = \<lparr>jti = ''nonce-1'', iss = ''did:elem:verifier'',
                  interactionToken = \<lparr>it_credentialRequirements = [email_requirement],
                                       it_suppliedCredentials = [],
                                       it_callbackURL = None\<rparr>\<rparr>,
      signature = Some ''sig''\<rparr>"

definition did_auth_request_object :: jwt_object where
  "did_auth_request_object =
     \<lparr>payload = \<lparr>jti = ''nonce-2'', iss = ''did:elem:verifier'',
                  interactionToken = \<lparr>it_credentialRequirements = [],
                                       it_suppliedCredentials = [],
                                       it_callbackURL = None\<rparr>\<rparr>,
      signature = Some ''sig''\<rparr>"

definition share_response_object :: jwt_object where
  "share_response_object =
     \<lparr>payload = \<lparr>jti = ''nonce-1'', iss = ''did:elem:holder'',
                  interactionToken = \<lparr>it_credentialRequirements = [],
                                       it_suppliedCredentials = [],
                                       it_callbackURL = None\<rparr>\<rparr>,
      signature = Some ''sig''\<rparr>"

definition example_fromJWT :: "string \<Rightarrow> error + jwt_object" where
  "example_fromJWT token =
     (if token = ''share.request'' then Inr share_request_object
      else if token = ''didauth.request'' then Inr did_auth_request_object
      else if token = ''share.response'' then Inr share_response_object
      else Inl (Thrown None ''Token can not be decoded''))"

definition example_buildCredentialResponse ::
    "string \<Rightarrow> signed_credential list \<Rightarrow> error + jwt_object" where
  "example_buildCredentialResponse token credentials =
     (case example_fromJWT token of
        Inl e \<Rightarrow> Inl e
      | Inr request \<Rightarrow>
          Inr \<lparr>payload = \<lparr>jti = jti (payload request), iss = ''did:elem:holder'',
                           interactionToken = \<lparr>it_credentialRequirements = [],
                                                it_suppliedCredentials = credentials,
                                                it_callbackURL = None\<rparr>\<rparr>,
               signature = None\<rparr>)"

definition example_encode :: "jwt_object \<Rightarrow> error + string" where
  "example_encode obj =
     Inr (''jwt:'' @ jti (payload obj) @ '':'' @
          concat (map vc_id (it_suppliedCredentials (interactionToken (payload obj)))))"

definition example_list_credential :: list_credential where
  "example_list_credential =
     \<lparr>rlc_id = ''list-1'', rlc_encodedList = ''H4sIAAAA'', rlc_issuanceDate = None,
      rlc_proof = None\<rparr>"

definition example_member :: member where
  "example_member =
     \<lparr>validate = (\<lambda>_. None),
      fromJWT = example_fromJWT,
      isW3cCredential = (\<lambda>_. True),
      hs_buildCredentialResponse = example_buildCredentialResponse,
      hs_verifyCredentialShareResponse =
        (\<lambda>response request shouldOwn.
           Inr \<lparr>sv_isValid = True, sv_did = ''did:elem:holder'', sv_jti = ''nonce-1'',
                sv_suppliedCredentials = [], sv_errors = []\<rparr>),
      hs_verifyPresentationChallenge =
        (\<lambda>challenge did. if challenge = ''share.request'' then None
                          else Some (Thrown None ''Token expired'')),
      va_BuildCredentialRequest = (\<lambda>params.
        Inr \<lparr>payload = \<lparr>jti = (case p_nonce params of Some n \<Rightarrow> n | None \<Rightarrow> ''nonce-0''),
                         iss = ''did:elem:verifier'',
                         interactionToken =
                           \<lparr>it_credentialRequirements = p_credentialRequirements params,
                            it_suppliedCredentials = [],
                            it_callbackURL = p_callbackUrl params\<rparr>\<rparr>,
             signature = None\<rparr>),
      ks_signJWT = (\<lambda>obj keyId. Inr (obj\<lparr>signature := Some ''sig''\<rparr>)),
      ks_decryptSeed = Inr ''seed++elem'',
      js_encodeObjectToJWT = example_encode,
      ms_parseVcMetadata = (\<lambda>credential name. ''metadata''),
      af_signPresentation = (\<lambda>vp seed key challenge domain.
        Inr \<lparr>vp_id = uvp_id vp, vp_holder_id = uvp_holder_id vp,
             verifiableCredential = uvp_vcs vp, proof_challenge = challenge,
             proof_domain = domain\<rparr>),
      af_validatePresentation = (\<lambda>vp.
        case vp of
          A_presentation data \<Rightarrow> Inr (Validation_ok data)
        | Not_a_presentation s \<Rightarrow> Inr (Validation_failed (Thrown None ''Invalid presentation''))),
      af_signCredential = (\<lambda>credential seed key. Inr (credential\<lparr>rlc_proof := Some ''proof''\<rparr>)),
      rs_buildRevocationListStatus = (\<lambda>credentialId subjectDid accessToken.
        Inr \<lparr>r_credentialStatus = ''list-1#7'',
             r_isPublisRequired = (credentialId = ''credId:first''),
             r_revocationListCredential = example_list_credential\<rparr>),
      rs_revokeCredential = (\<lambda>credentialId reason accessToken. Inr example_list_credential),
      rs_publishRevocationListCredential = (\<lambda>credential accessToken. None),
      cs_signIn = (\<lambda>username password.
        Inr \<lparr>t_accessToken = ''access'', t_idToken = ''id'', t_refreshToken = ''refresh''\<rparr>),
      normalizeShortPassword = (\<lambda>password username. password),
      wss_pullEncryptionKey = (\<lambda>accessToken. Inr ''key''),
      wss_storeEncryptedSeed = (\<lambda>n accessToken seed key.
        if n < 2 then Some (Thrown (Some ''ECONNRESET'') ''socket hang up'') else None),
      did = ''did:elem:me'',
      didDocumentKeyId = ''did:elem:me#primary'',
      m_encryptedSeed = ''encrypted-seed'',
      m_password = ''secret'',
      isTestEnvironment = False,
      randomHex = ''00112233aabbccdd'',
      now = ''2021-03-01T00:00:00.000Z''\<rparr>"

definition email_credential :: signed_credential where
  "email_credential =
     \<lparr>vc_id = ''claimId:email'', vc_type = [''Credential'', ''EmailCredentialPersonV1''],
      issued = None, issuanceDate = Some ''2021-01-01T00:00:00.000Z'', claim = None,
      credentialSubject = Some ''email''\<rparr>"

definition phone_credential :: signed_credential where
  "phone_credential =
     \<lparr>vc_id = ''claimId:phone'', vc_type = [''Credential'', ''PhoneCredentialPersonV1''],
      issued = None, issuanceDate = Some ''2021-01-01T00:00:00.000Z'', claim = None,
      credentialSubject = Some ''phone''\<rparr>"

text \<open>A credential with neither \<open>issuanceDate\<close> nor \<open>issued\<close>.\<close>

definition undated_credential :: signed_credential where
  "undated_credential =
     \<lparr>vc_id = ''claimId:undated'', vc_type = [''Credential'', ''NameCredentialPersonV1''],
      issued = None, issuanceDate = None, claim = None, credentialSubject = Some ''name''\<rparr>"

text \<open>A legacy credential without \<open>issued\<close>.\<close>

definition legacy_credential :: signed_credential where
  "legacy_credential =
     \<lparr>vc_id = ''claimId:legacy'', vc_type = [''Credential'', ''ProofOfEmailCredential''],
      issued = None, issuanceDate = None, claim = Some ''email'', credentialSubject = None\<rparr>"

text \<open>
  Two more storage services: one that fails once with a connection error and then with
  \<open>WAL-2\<close>, and one that always fails with a connection error.
\<close>

definition rejecting_member :: member where
  "rejecting_member =
     example_member\<lparr>wss_storeEncryptedSeed := (\<lambda>n accessToken seed key.
       if n = 0 then Some (Thrown (Some ''ECONNRESET'') ''socket hang up'')
       else Some (SdkError ''WAL-2'' (Ctx_accessToken accessToken) None))\<rparr>"

definition unreachable_member :: member where
  "unreachable_member =
     example_member\<lparr>wss_storeEncryptedSeed := (\<lambda>n accessToken seed key.
       Some (Thrown (Some ''ECONNRESET'') ''socket hang up''))\<rparr>"

text \<open>A resolver that knows the request sent with nonce \<open>nonce-1\<close>.\<close>

definition example_resolver :: "string \<Rightarrow> error + string js" where
  "example_resolver requestNonce =
     Inr (if requestNonce = ''nonce-1'' then Val ''share.request'' else Undefined)"

definition example_presentation :: presentation where
  "example_presentation =
     \<lparr>vp_id = ''presentationId:00112233aabbccdd'', vp_holder_id = ''did:elem:holder'',
      verifiableCredential = [email_credential], proof_challenge = ''share.request'',
      proof_domain = ''example.org''\<rparr>"

text \<open>
  A store with one unsigned credential, at address 0, whose \<open>@context\<close> array, at
  address 5, already holds the revocation-list context.
\<close>

definition example_unsigned_credential :: unsigned_credential where
  "example_unsigned_credential =
     \<lparr>uc_id = ''credId:first'', uc_holder_id = Some ''did:elem:holder'',
      uc_type = [''VerifiableCredential'', ''PhoneCredentialPersonV1''],
      uc_context = Some 5, uc_credentialSubject = ''phone'',
      uc_issuanceDate = Some ''2021-01-01T00:00:00.000Z'', uc_credentialStatus = None\<rparr>"

definition example_world :: world where
  "example_world =
     \<lparr>objects = (\<lambda>a. if a = 0 then Some example_unsigned_credential else None),
      next_object = 1,
      arrays = (\<lambda>a. if a = 5
                     then [''https://www.w3.org/2018/credentials/v1'', revocation_context_uri]
                     else []),
      calls = []\<rparr>"

text \<open>The same store with a credential the example service needs no publication for.\<close>

definition second_world :: world where
  "second_world =
     example_world\<lparr>objects :=
       (\<lambda>a. if a = 0 then Some (example_unsigned_credential\<lparr>uc_id := ''credId:second''\<rparr>)
             else None)\<rparr>"




section \<open>The structural check of supplied credentials\<close>

lemma structure_errors_loop_concat:
  "structure_errors_loop cs errors = errors @ concat (map credential_errors cs)"
  by (induction cs arbitrary: errors) (simp_all add: credential_errors_def Let_def)

lemma credential_errors_empty_iff: "credential_errors c = [] \<longleftrightarrow> structure_ok c"
  by (simp add: credential_errors_def structure_ok_def)

lemma credential_errors_messages:
  "set (credential_errors c) \<subseteq> {msg_issued, msg_issuanceDate, msg_credentialSubject}"
  by (auto simp add: credential_errors_def)

lemma validate_structures_ok:
  "(\<forall>c \<in> set cs. structure_ok c) \<Longrightarrow> validateSignedCredentialsSupportedStructures cs = Inr ()"
  by (simp add: validateSignedCredentialsSupportedStructures_def structure_errors_loop_concat
      credential_errors_empty_iff)

lemma validate_structures_fail:
  "\<exists>c \<in> set cs. \<not> structure_ok c \<Longrightarrow>
   validateSignedCredentialsSupportedStructures cs =
     Inl (SdkError ''COR-1'' (Ctx_errors_credentials (concat (map credential_errors cs)) cs) None)"
  by (auto simp add: validateSignedCredentialsSupportedStructures_def
      structure_errors_loop_concat credential_errors_empty_iff)

section \<open>Share responses and credentials that do not match the request\<close>

text \<open>
  C1, as stated, fails: with a request for an email credential and one supplied phone
  credential, filtering by the request's types (\<open>getShareCredential\<close>) leaves nothing, and
  \<open>createCredentialShareResponseToken\<close> still returns a token, which carries the phone
  credential.
\<close>

theorem share_response_without_matching_credentials:
  "getShareCredential example_member ''share.request'' [phone_credential] = Inr [] \<and>
   createCredentialShareResponseToken example_member ''share.request'' [phone_credential] =
     Inr ''jwt:nonce-1:claimId:phone''"
  by (simp add: getShareCredential_def getCredentialTypes_def
        createCredentialShareResponseToken_def validateSignedCredentialsSupportedStructures_def
        example_member_def example_fromJWT_def example_buildCredentialResponse_def
        example_encode_def share_request_object_def email_requirement_def
        phone_credential_def at_index_def)

text \<open>
  C1, amended: \<open>createCredentialShareResponseToken\<close> does not filter the supplied
  credentials and has no no-matching-credentials error of its own. When parameter
  validation and the structural check pass, it hands all supplied credentials, unchanged,
  to the holder service; the result is the holder service's error, the signer's error, or
  the encoding of the signed response, whether or not a credential matches the request
  and also for an empty list.
\<close>

theorem share_response_passes_all_credentials:
  assumes "validate this
             [Param False T_jwt True (V_string (Val token)),
              Param True T_SignedCredential True (V_credentials credentials)] = None"
    and "\<forall>c \<in> set credentials. structure_ok c"
  shows "createCredentialShareResponseToken this token credentials =
           (case hs_buildCredentialResponse this token credentials of
              Inl e \<Rightarrow> Inl e
            | Inr response \<Rightarrow>
                (case ks_signJWT this response (Some (didDocumentKeyId this)) of
                   Inl e \<Rightarrow> Inl e
                 | Inr signed \<Rightarrow> js_encodeObjectToJWT this signed))"
proof -
  have "validateSignedCredentialsSupportedStructures credentials = Inr ()"
    using assms(2) by (rule validate_structures_ok)
  with assms(1) show ?thesis
    by (simp add: createCredentialShareResponseToken_def)
qed

theorem share_response_passes_all_credentials_witness:
  "createCredentialShareResponseToken example_member ''didauth.request'' [] =
     Inr ''jwt:nonce-2:'' \<and>
   createCredentialShareResponseToken example_member ''share.request''
     [phone_credential, email_credential] = Inr ''jwt:nonce-1:claimId:phoneclaimId:email''"
proof -
  have v: "validate example_member
             [Param False T_jwt True (V_string (Val token)),
              Param True T_SignedCredential True (V_credentials credentials)] = None"
    for token credentials
    by (simp add: example_member_def)
  have s0: "\<forall>c \<in> set ([] :: signed_credential list). structure_ok c"
    by simp
  have s2: "\<forall>c \<in> set [phone_credential, email_credential]. structure_ok c"
    by (simp add: structure_ok_def phone_credential_def email_credential_def)
  show ?thesis
    using share_response_passes_all_credentials [OF v s0, of "''didauth.request''"]
          share_response_passes_all_credentials [OF v s2, of "''share.request''"]
    by (simp add: example_member_def example_buildCredentialResponse_def example_fromJWT_def
          did_auth_request_object_def share_request_object_def example_encode_def
          phone_credential_def email_credential_def)
qed

section \<open>What the structural error reports\<close>

text \<open>
  C2, as stated, fails: the error list holds fixed messages, which do not name the
  credential they are about. With a valid credential followed by one that lacks
  \<open>issuanceDate\<close>, the list is the single message about \<open>issuanceDate\<close>, and the
  identifier of the offending credential does not occur in it.
\<close>

theorem share_response_errors_without_identifier:
  "createCredentialShareResponseToken example_member ''share.request''
     [email_credential, undated_credential] =
   Inl (SdkError ''COR-1''
         (Ctx_errors_credentials [msg_issuanceDate] [email_credential, undated_credential])
         None) \<and>
   \<not> sublist (vc_id undated_credential) msg_issuanceDate"
proof
  show "createCredentialShareResponseToken example_member ''share.request''
          [email_credential, undated_credential] =
        Inl (SdkError ''COR-1''
              (Ctx_errors_credentials [msg_issuanceDate] [email_credential, undated_credential])
              None)"
    by (simp add: createCredentialShareResponseToken_def
        validateSignedCredentialsSupportedStructures_def example_member_def
        email_credential_def undated_credential_def)
  show "\<not> sublist (vc_id undated_credential) msg_issuanceDate"
    unfolding undated_credential_def msg_issuanceDate_def by code_simp
qed

text \<open>
  C2, amended: when parameter validation passes and at least one supplied credential
  fails the structural check, \<open>createCredentialShareResponseToken\<close> throws \<open>COR-1\<close>. Its
  error list holds, in the order of the credentials, the messages of every failing
  credential, at least one for each and not only those of the first; every message is one
  of three fixed texts; the context also carries the whole list of supplied credentials.
\<close>

theorem share_response_structure_errors:
  assumes "validate this
             [Param False T_jwt True (V_string (Val token)),
              Param True T_SignedCredential True (V_credentials credentials)] = None"
    and "\<exists>c \<in> set credentials. \<not> structure_ok c"
  shows "createCredentialShareResponseToken this token credentials =
           Inl (SdkError ''COR-1''
                 (Ctx_errors_credentials (concat (map credential_errors credentials)) credentials)
                 None) \<and>
         (\<forall>c \<in> set credentials. \<not> structure_ok c \<longrightarrow>
            credential_errors c \<noteq> [] \<and>
            set (credential_errors c) \<subseteq> set (concat (map credential_errors credentials))) \<and>
         set (concat (map credential_errors credentials)) \<subseteq>
           {msg_issued, msg_issuanceDate, msg_credentialSubject}"
proof (intro conjI)
  show "createCredentialShareResponseToken this token credentials =
          Inl (SdkError ''COR-1''
                (Ctx_errors_credentials (concat (map credential_errors credentials)) credentials)
                None)"
    using assms by (simp add: createCredentialShareResponseToken_def validate_structures_fail)
  show "\<forall>c \<in> set credentials. \<not> structure_ok c \<longrightarrow>
          credential_errors c \<noteq> [] \<and>
          set (credential_errors c) \<subseteq> set (concat (map credential_errors credentials))"
    by (auto simp add: credential_errors_empty_iff)
  show "set (concat (map credential_errors credentials)) \<subseteq>
          {msg_issued, msg_issuanceDate, msg_credentialSubject}"
    using credential_errors_messages by fastforce
qed

theorem share_response_structure_errors_witness:
  "createCredentialShareResponseToken example_member ''share.request''
     [undated_credential, email_credential, legacy_credential] =
   Inl (SdkError ''COR-1''
         (Ctx_errors_credentials [msg_issuanceDate, msg_issued]
            [undated_credential, email_credential, legacy_credential]) None)"
proof -
  have v: "validate example_member
             [Param False T_jwt True (V_string (Val ''share.request'')),
              Param True T_SignedCredential True
                (V_credentials [undated_credential, email_credential, legacy_credential])] = None"
    by (simp add: example_member_def)
  have f: "\<exists>c \<in> set [undated_credential, email_credential, legacy_credential].
             \<not> structure_ok c"
    by (simp add: structure_ok_def undated_credential_def)
  show ?thesis
    using share_response_structure_errors [OF v f]
    by (simp add: credential_errors_def undated_credential_def email_credential_def
          legacy_credential_def)
qed

section \<open>Verifying a share response through a resolver\<close>

text \<open>
  C3: called with a resolver function, \<open>verifyCredentialShareResponseToken\<close> gives the
  resolver the \<open>jti\<close> of the decoded response. When the resolver returns, the call
  throws \<open>COR-15\<close> in exactly two cases, namely when the resolver returned a falsy value
  and when \<open>fromJWT\<close> rejects the token it returned; in every other case it goes on as
  with a literal token: the holder service verifies the response against the resolved
  token, and its error or its answer is the result.
\<close>

theorem verify_share_response_with_resolver:
  assumes "validate this
             [Param False T_jwt True (V_string (Val responseToken)),
              Param False T_jwt False (V_string Undefined),
              Param False T_boolean False (V_boolean shouldOwn)] = None"
    and "fromJWT this responseToken = Inr response"
    and "resolver (jti (payload response)) = Inr resolved"
  shows "verifyCredentialShareResponseToken this responseToken (Resolver resolver) shouldOwn =
           (if falsy resolved \<or> isl (fromJWT this (js_string resolved))
            then Inl (SdkError ''COR-15'' (Ctx_credentialShareRequestToken resolved) None)
            else (case hs_verifyCredentialShareResponse this responseToken resolved shouldOwn of
                    Inl e \<Rightarrow> Inl e
                  | Inr verification \<Rightarrow> Inr (share_response_output this verification)))"
  using assms
  by (simp add: verifyCredentialShareResponseToken_def resolveRequestToken_def
        split: sum.splits)

theorem verify_share_response_with_resolver_witness:
  "verifyCredentialShareResponseToken example_member ''share.response''
     (Resolver example_resolver) True =
   Inr (\<lparr>out_isValid = True, out_did = ''did:elem:holder'', out_nonce = ''nonce-1'',
         out_suppliedCredentials = [], out_errors = []\<rparr>, []) \<and>
   verifyCredentialShareResponseToken example_member ''share.response''
     (Resolver (\<lambda>n. Inr Undefined)) True =
   Inl (SdkError ''COR-15'' (Ctx_credentialShareRequestToken Undefined) None) \<and>
   verifyCredentialShareResponseToken example_member ''share.response''
     (Resolver (\<lambda>n. Inr (Val ''garbage''))) True =
   Inl (SdkError ''COR-15'' (Ctx_credentialShareRequestToken (Val ''garbage'')) None)"
proof -
  have v: "validate example_member
             [Param False T_jwt True (V_string (Val ''share.response'')),
              Param False T_jwt False (V_string Undefined),
              Param False T_boolean False (V_boolean True)] = None"
    by (simp add: example_member_def)
  have d: "fromJWT example_member ''share.response'' = Inr share_response_object"
    by (simp add: example_member_def example_fromJWT_def)
  have r1: "example_resolver (jti (payload share_response_object)) = Inr (Val ''share.request'')"
    by (simp add: example_resolver_def share_response_object_def)
  show ?thesis
    using verify_share_response_with_resolver
            [where resolver = example_resolver, OF v d r1]
          verify_share_response_with_resolver
            [where resolver = "\<lambda>n. Inr Undefined" and resolved = Undefined, OF v d refl]
          verify_share_response_with_resolver
            [where resolver = "\<lambda>n. Inr (Val ''garbage'')" and resolved = "Val ''garbage''",
             OF v d refl]
    by (simp add: example_member_def example_fromJWT_def share_response_output_def
          sendVCVerifiedPerPartyMetrics_def)
qed

text \<open>
  Before that point, an error of decoding the response or of the resolver itself is
  thrown as it is.
\<close>

lemma verify_share_response_other_errors:
  assumes "validate this
             [Param False T_jwt True (V_string (Val responseToken)),
              Param False T_jwt False (V_string Undefined),
              Param False T_boolean False (V_boolean shouldOwn)] = None"
  shows "fromJWT this responseToken = Inl e \<Longrightarrow>
           verifyCredentialShareResponseToken this responseToken (Resolver resolver) shouldOwn =
             Inl e"
    and "fromJWT this responseToken = Inr response \<Longrightarrow>
         resolver (jti (payload response)) = Inl e \<Longrightarrow>
           verifyCredentialShareResponseToken this responseToken (Resolver resolver) shouldOwn =
             Inl e"
  using assms
  by (simp_all add: verifyCredentialShareResponseToken_def resolveRequestToken_def)

section \<open>Presentations built from a challenge and verified\<close>

lemma credential_types_loop_set:
  "set (credential_types_loop this reqs acc) =
     set acc \<union> {at_index (req_type r) 1 | r. r \<in> set reqs \<and> isW3cCredential this r}"
  by (induction reqs arbitrary: acc) auto

lemma requested_type_iff:
  "t \<in> set (getCredentialTypes this request) \<longleftrightarrow>
     (\<exists>r \<in> set (it_credentialRequirements (interactionToken (payload request))).
        isW3cCredential this r \<and> at_index (req_type r) 1 = t)"
  by (auto simp add: getCredentialTypes_def credential_types_loop_set)

text \<open>
  C5: \<open>createPresentationFromChallenge\<close> hands to the signer exactly the credentials, in
  their order, whose second type tag is the second type tag of some W3C requirement of the
  decoded challenge, which are the types \<open>getCredentialTypes\<close> returns. A missing second
  tag is \<open>undefined\<close> on both sides and compares as a value. Nothing is thrown for the
  credentials left out, also when none is kept: once validation and decoding pass, the
  result is whatever the signer gives for the filtered list.
\<close>

theorem presentation_from_challenge_filters_silently:
  assumes "validate this
             [Param False T_jwt True (V_string (Val challenge)),
              Param True T_VCV1 True (V_credentials vcs)] = None"
    and "fromJWT this challenge = Inr request"
  shows "createPresentationFromChallenge this challenge vcs domain =
           af_signPresentation this
             \<lparr>uvp_id = ''presentationId:'' @ randomHex this,
              uvp_vcs =
                filter (\<lambda>vc. \<exists>r \<in> set (it_credentialRequirements
                                          (interactionToken (payload request))).
                                isW3cCredential this r \<and>
                                at_index (req_type r) 1 = at_index (vc_type vc) 1) vcs,
              uvp_holder_id = did this\<rparr>
             (m_encryptedSeed this) (m_password this) challenge domain"
  using assms
  by (simp add: createPresentationFromChallenge_def requested_type_iff)

theorem presentation_from_challenge_filters_silently_witness:
  "createPresentationFromChallenge example_member ''share.request''
     [phone_credential, email_credential] ''example.org'' =
   Inr \<lparr>vp_id = ''presentationId:00112233aabbccdd'', vp_holder_id = ''did:elem:me'',
        verifiableCredential = [email_credential], proof_challenge = ''share.request'',
        proof_domain = ''example.org''\<rparr> \<and>
   createPresentationFromChallenge example_member ''share.request''
     [phone_credential] ''example.org'' =
   Inr \<lparr>vp_id = ''presentationId:00112233aabbccdd'', vp_holder_id = ''did:elem:me'',
        verifiableCredential = [], proof_challenge = ''share.request'',
        proof_domain = ''example.org''\<rparr>"
proof -
  have v: "validate example_member
             [Param False T_jwt True (V_string (Val ''share.request'')),
              Param True T_VCV1 True (V_credentials vcs)] = None" for vcs
    by (simp add: example_member_def)
  have d: "fromJWT example_member ''share.request'' = Inr share_request_object"
    by (simp add: example_member_def example_fromJWT_def)
  show ?thesis
    using presentation_from_challenge_filters_silently
            [OF v d, of "[phone_credential, email_credential]" "''example.org''"]
          presentation_from_challenge_filters_silently
            [OF v d, of "[phone_credential]" "''example.org''"]
    by (simp add: example_member_def share_request_object_def email_requirement_def
          phone_credential_def email_credential_def at_index_def)
qed

text \<open>
  C6: for a presentation that passes the first phase (\<open>validatePresentation\<close> answers
  with \<open>result: true\<close> and the validated data), \<open>verifyPresentation\<close> does not throw. When
  the check of the challenge token throws, it returns \<open>isValid = false\<close> with the
  validated data as \<open>suppliedPresentation\<close> and the exception as the only error; when
  that check passes, it returns \<open>isValid = true\<close> with the holder's id as \<open>did\<close> and the
  challenge of the proof as \<open>challenge\<close>.
\<close>

theorem verify_presentation_two_phases:
  assumes "af_validatePresentation this vp = Inr (Validation_ok data)"
  shows "(\<forall>error. hs_verifyPresentationChallenge this (proof_challenge data) (did this) =
                     Some error \<longrightarrow>
            verifyPresentation this vp =
              Inr \<lparr>pv_isValid = False, pv_did = None, pv_challenge = None,
                   pv_suppliedPresentation = A_presentation data,
                   pv_errors = Some [error]\<rparr>) \<and>
         (hs_verifyPresentationChallenge this (proof_challenge data) (did this) = None \<longrightarrow>
            verifyPresentation this vp =
              Inr \<lparr>pv_isValid = True, pv_did = Some (vp_holder_id data),
                   pv_challenge = Some (proof_challenge data),
                   pv_suppliedPresentation = A_presentation data,
                   pv_errors = None\<rparr>)"
  using assms by (simp add: verifyPresentation_def)

theorem verify_presentation_two_phases_witness:
  "verifyPresentation example_member (A_presentation example_presentation) =
     Inr \<lparr>pv_isValid = True, pv_did = Some ''did:elem:holder'',
          pv_challenge = Some ''share.request'',
          pv_suppliedPresentation = A_presentation example_presentation,
          pv_errors = None\<rparr> \<and>
   verifyPresentation example_member
       (A_presentation (example_presentation\<lparr>proof_challenge := ''old.request''\<rparr>)) =
     Inr \<lparr>pv_isValid = False, pv_did = None, pv_challenge = None,
          pv_suppliedPresentation =
            A_presentation (example_presentation\<lparr>proof_challenge := ''old.request''\<rparr>),
          pv_errors = Some [Thrown None ''Token expired'']\<rparr>"
proof -
  have a: "af_validatePresentation example_member (A_presentation p) = Inr (Validation_ok p)"
    for p
    by (simp add: example_member_def)
  show ?thesis
    using verify_presentation_two_phases [OF a, of example_presentation]
          verify_presentation_two_phases
            [OF a, of "example_presentation\<lparr>proof_challenge := ''old.request''\<rparr>"]
    by (simp add: example_member_def example_presentation_def)
qed

section \<open>DID authentication as a share of nothing\<close>





section \<open>Publishing the revocation list and attaching the status\<close>



text \<open>
  C7, as stated, fails: for a credential whose \<open>@context\<close> already holds the
  revocation-list context, \<open>buildRevocationListStatus\<close> returns normally and the array
  then holds that context twice.
\<close>

theorem revocation_context_appended_twice:
  "fst (buildRevocationListStatus example_member example_world 0 ''access'') = Inr 1 \<and>
   arrays (snd (buildRevocationListStatus example_member example_world 0 ''access'')) 5 =
     [''https://www.w3.org/2018/credentials/v1'',
      ''https://w3id.org/vc-revocation-list-2020/v1'',
      ''https://w3id.org/vc-revocation-list-2020/v1''] \<and>
   arrays example_world 5 =
     [''https://www.w3.org/2018/credentials/v1'',
      ''https://w3id.org/vc-revocation-list-2020/v1'']"
  by (simp add: buildRevocationListStatus_def Let_def example_member_def example_world_def
        example_unsigned_credential_def revocation_context_uri_def example_list_credential_def)

text \<open>
  C7, amended: when \<open>buildRevocationListStatus\<close> returns, the credential it returns is
  the unsigned credential with \<open>credentialStatus\<close> set to the status the revocation
  service gave, and the revocation-list context has been appended at the end of the
  credential's \<open>@context\<close> array, whether or not the array held it already.
\<close>

theorem revocation_status_and_context_attached:
  assumes "objects w unsignedCredential = Some obj"
    and "buildRevocationListStatus this w unsignedCredential token = (Inr revokable, w')"
  shows "\<exists>response a.
           rs_buildRevocationListStatus this (uc_id obj) (uc_holder_id obj) token =
             Inr response \<and>
           objects w' revokable =
             Some (obj\<lparr>uc_credentialStatus := Some (r_credentialStatus response)\<rparr>) \<and>
           uc_context obj = Some a \<and>
           arrays w' a = arrays w a @ [revocation_context_uri]"
  using assms
  by (auto simp add: buildRevocationListStatus_def Let_def
        split: option.splits sum.splits if_splits)

theorem revocation_status_and_context_attached_witness:
  "objects (snd (buildRevocationListStatus example_member second_world 0 ''access'')) 1 =
     Some (example_unsigned_credential\<lparr>uc_id := ''credId:second'',
                                       uc_credentialStatus := Some ''list-1#7''\<rparr>) \<and>
   arrays (snd (buildRevocationListStatus example_member second_world 0 ''access'')) 5 =
     arrays second_world 5 @ [revocation_context_uri]"
proof -
  have o: "objects second_world 0 = Some (example_unsigned_credential\<lparr>uc_id := ''credId:second''\<rparr>)"
    by (simp add: second_world_def example_world_def)
  have b: "buildRevocationListStatus example_member second_world 0 ''access'' =
             (Inr 1, snd (buildRevocationListStatus example_member second_world 0 ''access''))"
    by (simp add: buildRevocationListStatus_def Let_def second_world_def example_world_def
          example_member_def example_unsigned_credential_def)
  show ?thesis
    using revocation_status_and_context_attached [OF o b]
    by (auto simp add: example_member_def example_unsigned_credential_def)
qed

text \<open>
  C10: \<open>buildRevocationListStatus\<close> changes its input. Once the revocation service has
  answered, for a stored credential with a \<open>@context\<close> array: the object of the input
  credential is as before, field by field; the array its \<open>@context\<close> points to has grown
  by the revocation-list context; no other array has changed; and the credential
  returned, when one is returned, is a new object whose \<open>@context\<close> is the same array.
  This holds also when signing or publishing fails afterwards.
\<close>

theorem build_status_mutates_input_context:
  assumes "objects w unsignedCredential = Some obj"
    and "unsignedCredential < next_object w"
    and "uc_context obj = Some a"
    and "rs_buildRevocationListStatus this (uc_id obj) (uc_holder_id obj) token = Inr response"
  shows "objects (snd (buildRevocationListStatus this w unsignedCredential token))
           unsignedCredential = Some obj \<and>
         arrays (snd (buildRevocationListStatus this w unsignedCredential token)) a =
           arrays w a @ [revocation_context_uri] \<and>
         (\<forall>b. b \<noteq> a \<longrightarrow>
            arrays (snd (buildRevocationListStatus this w unsignedCredential token)) b =
              arrays w b) \<and>
         (\<forall>revokable.
            fst (buildRevocationListStatus this w unsignedCredential token) = Inr revokable \<longrightarrow>
            revokable \<noteq> unsignedCredential \<and>
            (\<exists>copy. objects (snd (buildRevocationListStatus this w unsignedCredential token))
                      revokable = Some copy \<and> uc_context copy = Some a))"
  using assms
  by (auto simp add: buildRevocationListStatus_def Let_def
        split: option.splits sum.splits if_splits)

theorem build_status_mutates_input_context_witness:
  "objects (snd (buildRevocationListStatus example_member example_world 0 ''access'')) 0 =
     Some example_unsigned_credential \<and>
   arrays example_world 5 =
     [''https://www.w3.org/2018/credentials/v1'', revocation_context_uri] \<and>
   arrays (snd (buildRevocationListStatus example_member example_world 0 ''access'')) 5 =
     [''https://www.w3.org/2018/credentials/v1'', revocation_context_uri,
      revocation_context_uri] \<and>
   fst (buildRevocationListStatus example_member example_world 0 ''access'') \<noteq> Inr 0"
proof -
  have o: "objects example_world 0 = Some example_unsigned_credential"
    by (simp add: example_world_def)
  have n: "0 < next_object example_world"
    by (simp add: example_world_def)
  have c: "uc_context example_unsigned_credential = Some 5"
    by (simp add: example_unsigned_credential_def)
  have b: "rs_buildRevocationListStatus example_member (uc_id example_unsigned_credential)
              (uc_holder_id example_unsigned_credential) ''access'' =
            Inr \<lparr>r_credentialStatus = ''list-1#7'', r_isPublisRequired = True,
                 r_revocationListCredential = example_list_credential\<rparr>"
    by (simp add: example_member_def example_unsigned_credential_def)
  show ?thesis
    using build_status_mutates_input_context [OF o n c b]
    by (auto simp add: example_world_def)
qed

section \<open>Retrying the storage of the encrypted seed\<close>

lemma retry_returned: "fn n = Returned v \<Longrightarrow> retry fn r n = (Inr v, Suc n)"
  by (cases r) simp_all

lemma retry_bailed: "fn n = Bailed e \<Longrightarrow> retry fn r n = (Inl e, Suc n)"
  by (cases r) simp_all

lemma retry_skip_thrown:
  "k \<le> r \<Longrightarrow> (\<forall>i<k. \<exists>e. fn (n + i) = Threw e) \<Longrightarrow>
   retry fn r n = retry fn (r - k) (n + k)"
proof (induction k arbitrary: r n)
  case 0
  then show ?case by simp
next
  case (Suc k)
  from Suc.prems obtain r' where r: "r = Suc r'" and k: "k \<le> r'"
    by (cases r) auto
  from Suc.prems(2) obtain e where e: "fn n = Threw e"
    by (metis add.right_neutral zero_less_Suc)
  have rest: "\<forall>i<k. \<exists>e. fn (Suc n + i) = Threw e"
    using Suc.prems(2) by (metis Suc_less_eq add_Suc_right add_Suc)
  show ?case
    using Suc.IH [OF k rest] e r by simp
qed

lemma retry_attempts: "n < snd (retry fn r n) \<and> snd (retry fn r n) \<le> Suc (n + r)"
proof (induction r arbitrary: n)
  case 0
  then show ?case by (simp split: attempt.splits)
next
  case (Suc r)
  show ?case
  proof (cases "fn n")
    case (Threw e)
    then show ?thesis using Suc [of "Suc n"] by simp
  qed simp_all
qed

lemma store_attempt_cases:
  "store_attempt this at seed key n =
     (case wss_storeEncryptedSeed this n at seed key of
        None \<Rightarrow> Returned ()
      | Some error \<Rightarrow>
          if error_code error \<in> {Some ''COR-1'', Some ''WAL-2''} then Bailed error
          else Threw (SdkError ''COR-18'' (Ctx_accessToken at) (Some error)))"
  by (auto simp add: store_attempt_def split: option.splits)

lemma storeEncryptedSeed_retry:
  assumes "validate this
             [Param False T_string True (V_string (Val username)),
              Param False T_string True (V_string (Val password)),
              Param False T_jwt False (V_string token)] = None"
    and "access_token_for this username password token = Inr (accessToken, stored)"
    and "ks_decryptSeed this = Inr seed"
    and "wss_pullEncryptionKey this accessToken = Inr key"
  shows "storeEncryptedSeed this username password token =
           (case fst (retry (store_attempt this accessToken seed key) 3 0) of
              Inl e \<Rightarrow> Some e | Inr _ \<Rightarrow> None,
            stored, snd (retry (store_attempt this accessToken seed key) 3 0))"
  using assms by (simp add: storeEncryptedSeed_def split: prod.splits sum.splits)

text \<open>
  C9: once \<open>storeEncryptedSeed\<close> has its access token, the decrypted seed and the
  encryption key, it calls the storage service at most four times, the first attempt and
  three retries. A failure with code \<open>COR-1\<close> or \<open>WAL-2\<close> ends the call at once with
  that very error; a success ends it without error; any other failure is wrapped into
  \<open>COR-18\<close> and the call is made again, and when the fourth call fails in that way as
  well, the \<open>COR-18\<close> error wrapping its failure is thrown.
\<close>

theorem store_encrypted_seed_bounded_retry:
  assumes "validate this
             [Param False T_string True (V_string (Val username)),
              Param False T_string True (V_string (Val password)),
              Param False T_jwt False (V_string token)] = None"
    and "access_token_for this username password token = Inr (accessToken, stored)"
    and "ks_decryptSeed this = Inr seed"
    and "wss_pullEncryptionKey this accessToken = Inr key"
  shows "snd (snd (storeEncryptedSeed this username password token)) \<le> 4 \<and>
         (\<forall>k error. k \<le> 3 \<and>
            (\<forall>i<k. \<exists>e. wss_storeEncryptedSeed this i accessToken seed key = Some e \<and>
                       error_code e \<notin> {Some ''COR-1'', Some ''WAL-2''}) \<and>
            wss_storeEncryptedSeed this k accessToken seed key = Some error \<and>
            error_code error \<in> {Some ''COR-1'', Some ''WAL-2''} \<longrightarrow>
            storeEncryptedSeed this username password token = (Some error, stored, Suc k)) \<and>
         (\<forall>k. k \<le> 3 \<and>
            (\<forall>i<k. \<exists>e. wss_storeEncryptedSeed this i accessToken seed key = Some e \<and>
                       error_code e \<notin> {Some ''COR-1'', Some ''WAL-2''}) \<and>
            wss_storeEncryptedSeed this k accessToken seed key = None \<longrightarrow>
            storeEncryptedSeed this username password token = (None, stored, Suc k)) \<and>
         (\<forall>error.
            (\<forall>i<3. \<exists>e. wss_storeEncryptedSeed this i accessToken seed key = Some e \<and>
                       error_code e \<notin> {Some ''COR-1'', Some ''WAL-2''}) \<and>
            wss_storeEncryptedSeed this 3 accessToken seed key = Some error \<and>
            error_code error \<notin> {Some ''COR-1'', Some ''WAL-2''} \<longrightarrow>
            storeEncryptedSeed this username password token =
              (Some (SdkError ''COR-18'' (Ctx_accessToken accessToken) (Some error)),
               stored, 4))"
proof -
  let ?fn = "store_attempt this accessToken seed key"
  note eq = storeEncryptedSeed_retry [OF assms]
  have thrown: "\<forall>i<k. \<exists>e. ?fn (0 + i) = Threw e"
    if "\<forall>i<k. \<exists>e. wss_storeEncryptedSeed this i accessToken seed key = Some e \<and>
                    error_code e \<notin> {Some ''COR-1'', Some ''WAL-2''}" for k
    using that by (auto simp add: store_attempt_cases)
  have skip: "retry ?fn 3 0 = retry ?fn (3 - k) k"
    if "k \<le> 3"
      and "\<forall>i<k. \<exists>e. wss_storeEncryptedSeed this i accessToken seed key = Some e \<and>
                    error_code e \<notin> {Some ''COR-1'', Some ''WAL-2''}" for k
    using retry_skip_thrown [OF that(1) thrown [OF that(2)]] by simp
  have bound: "snd (snd (storeEncryptedSeed this username password token)) \<le> 4"
    using retry_attempts [of 0 ?fn 3] by (simp add: eq)
  have bail: "storeEncryptedSeed this username password token = (Some error, stored, Suc k)"
    if "k \<le> 3"
      and "\<forall>i<k. \<exists>e. wss_storeEncryptedSeed this i accessToken seed key = Some e \<and>
                    error_code e \<notin> {Some ''COR-1'', Some ''WAL-2''}"
      and "wss_storeEncryptedSeed this k accessToken seed key = Some error"
      and "error_code error \<in> {Some ''COR-1'', Some ''WAL-2''}" for k error
  proof -
    have "?fn k = Bailed error"
      using that(3,4) by (simp add: store_attempt_cases)
    then show ?thesis
      by (simp add: eq skip [OF that(1,2)] retry_bailed)
  qed
  have stored_ok: "storeEncryptedSeed this username password token = (None, stored, Suc k)"
    if "k \<le> 3"
      and "\<forall>i<k. \<exists>e. wss_storeEncryptedSeed this i accessToken seed key = Some e \<and>
                    error_code e \<notin> {Some ''COR-1'', Some ''WAL-2''}"
      and "wss_storeEncryptedSeed this k accessToken seed key = None" for k
  proof -
    have "?fn k = Returned ()"
      using that(3) by (simp add: store_attempt_cases)
    then show ?thesis
      by (simp add: eq skip [OF that(1,2)] retry_returned)
  qed
  have exhausted: "storeEncryptedSeed this username password token =
              (Some (SdkError ''COR-18'' (Ctx_accessToken accessToken) (Some error)),
               stored, 4)"
    if "\<forall>i<3. \<exists>e. wss_storeEncryptedSeed this i accessToken seed key = Some e \<and>
                    error_code e \<notin> {Some ''COR-1'', Some ''WAL-2''}"
      and "wss_storeEncryptedSeed this 3 accessToken seed key = Some error"
      and "error_code error \<notin> {Some ''COR-1'', Some ''WAL-2''}" for error
  proof -
    have "?fn 3 = Threw (SdkError ''COR-18'' (Ctx_accessToken accessToken) (Some error))"
      using that(2,3) by (simp add: store_attempt_cases)
    then show ?thesis
      using skip [of 3, OF _ that(1)] by (simp add: eq)
  qed
  show ?thesis
    using bound bail stored_ok exhausted by blast
qed


theorem store_encrypted_seed_bounded_retry_witness:
  "storeEncryptedSeed example_member ''user'' ''secret'' (Val ''access'') = (None, None, 3) \<and>
   storeEncryptedSeed rejecting_member ''user'' ''secret'' (Val ''access'') =
     (Some (SdkError ''WAL-2'' (Ctx_accessToken ''access'') None), None, 2) \<and>
   storeEncryptedSeed unreachable_member ''user'' ''secret'' (Val ''access'') =
     (Some (SdkError ''COR-18'' (Ctx_accessToken ''access'')
              (Some (Thrown (Some ''ECONNRESET'') ''socket hang up''))), None, 4)"
proof -
  have v: "validate m
             [Param False T_string True (V_string (Val ''user'')),
              Param False T_string True (V_string (Val ''secret'')),
              Param False T_jwt False (V_string (Val ''access''))] = None"
    if "m = example_member \<or> m = rejecting_member \<or> m = unreachable_member" for m
    using that by (auto simp add: example_member_def rejecting_member_def unreachable_member_def)
  have a: "access_token_for m ''user'' ''secret'' (Val ''access'') = Inr (''access'', None)" for m
    by (simp add: access_token_for_def)
  have s: "ks_decryptSeed m = Inr ''seed++elem''"
    if "m = example_member \<or> m = rejecting_member \<or> m = unreachable_member" for m
    using that by (auto simp add: example_member_def rejecting_member_def unreachable_member_def)
  have k: "wss_pullEncryptionKey m ''access'' = Inr ''key''"
    if "m = example_member \<or> m = rejecting_member \<or> m = unreachable_member" for m
    using that by (auto simp add: example_member_def rejecting_member_def unreachable_member_def)
  have less2: "i < 2 \<longleftrightarrow> i = 0 \<or> i = Suc 0" for i :: nat
    by auto
  have less3: "i < 3 \<longleftrightarrow> i = 0 \<or> i = Suc 0 \<or> i = 2" for i :: nat
    by auto
  have first: "storeEncryptedSeed example_member ''user'' ''secret'' (Val ''access'') =
                 (None, None, 3)"
    using store_encrypted_seed_bounded_retry
            [OF v a s k, of example_member, THEN conjunct2, THEN conjunct2, THEN conjunct1,
             rule_format, of 2]
    by (simp add: example_member_def less2 numeral_2_eq_2 numeral_3_eq_3)
  have second: "storeEncryptedSeed rejecting_member ''user'' ''secret'' (Val ''access'') =
                  (Some (SdkError ''WAL-2'' (Ctx_accessToken ''access'') None), None, 2)"
    using store_encrypted_seed_bounded_retry
            [OF v a s k, of rejecting_member, THEN conjunct2, THEN conjunct1,
             rule_format, of 1 "SdkError ''WAL-2'' (Ctx_accessToken ''access'') None"]
    by (simp add: rejecting_member_def example_member_def)
  have third: "storeEncryptedSeed unreachable_member ''user'' ''secret'' (Val ''access'') =
                 (Some (SdkError ''COR-18'' (Ctx_accessToken ''access'')
                    (Some (Thrown (Some ''ECONNRESET'') ''socket hang up''))), None, 4)"
    using store_encrypted_seed_bounded_retry
            [OF v a s k, of unreachable_member, THEN conjunct2, THEN conjunct2, THEN conjunct2,
             rule_format, of "Thrown (Some ''ECONNRESET'') ''socket hang up''"]
    by (simp add: unreachable_member_def example_member_def)
  show ?thesis
    using first second third by simp
qed

end
